theory Spec2Isabelle
  imports Main "HOL-Library.Word"
begin

section \<open>The auto-braking controller of ch10.cpp\<close>

text \<open>
  A shallow embedding of the brake example of \<^verbatim>\<open>src/ch10.cpp\<close>: the four event
  structs, \<^verbatim>\<open>MockServiceBus\<close>, \<^verbatim>\<open>AutoBrake\<close> with its three subscribed lambdas and
  \<^verbatim>\<open>set_collision_threshold_s\<close>, and the call sequences of the unit tests.

  The controller computes on C++ \<^verbatim>\<open>double\<close> values. They are modelled as what they are on
  the platforms the file is built for: 64-bit IEEE 754 binary64 patterns, with the
  comparisons and the division of the standard (round to nearest, ties to even, in the
  default floating-point environment, where a division by zero does not trap).
\<close>

subsection \<open>IEEE 754 binary64\<close>

text \<open>
  Bit 63 is the sign, bits 62..52 the biased exponent, bits 51..0 the fraction. The low 63
  bits read as a natural number order the non-NaN values of one sign by size; above
  \<open>0x7FF0000000000000\<close> (infinity) they are NaNs.
\<close>

type_synonym double = "64 word"

definition sign_bit :: "double \<Rightarrow> bool" where
  "sign_bit d = (2 ^ 63 \<le> unat d)"

definition magnitude :: "double \<Rightarrow> nat" where
  "magnitude d = unat d mod 2 ^ 63"

definition inf_bits :: nat where
  "inf_bits = 2047 * 2 ^ 52"

definition is_nan :: "double \<Rightarrow> bool" where
  "is_nan d = (inf_bits < magnitude d)"

definition is_inf :: "double \<Rightarrow> bool" where
  "is_inf d = (magnitude d = inf_bits)"

definition is_zero :: "double \<Rightarrow> bool" where
  "is_zero d = (magnitude d = 0)"

text \<open>The position of a non-NaN value on the number line; \<open>+0\<close> and \<open>-0\<close> coincide.\<close>

definition ord_key :: "double \<Rightarrow> int" where
  "ord_key d = (if sign_bit d then - int (magnitude d) else int (magnitude d))"

text \<open>The C++ operators \<^verbatim>\<open><\<close>, \<^verbatim>\<open><=\<close>, \<^verbatim>\<open>>\<close>, \<^verbatim>\<open>>=\<close> and \<^verbatim>\<open>==\<close> on doubles: false as soon
  as one operand is a NaN.\<close>

definition dlt :: "double \<Rightarrow> double \<Rightarrow> bool" where
  "dlt a b = (\<not> is_nan a \<and> \<not> is_nan b \<and> ord_key a < ord_key b)"

definition dle :: "double \<Rightarrow> double \<Rightarrow> bool" where
  "dle a b = (\<not> is_nan a \<and> \<not> is_nan b \<and> ord_key a \<le> ord_key b)"

definition dgt :: "double \<Rightarrow> double \<Rightarrow> bool" where
  "dgt a b = dlt b a"

definition dge :: "double \<Rightarrow> double \<Rightarrow> bool" where
  "dge a b = dle b a"

definition deq :: "double \<Rightarrow> double \<Rightarrow> bool" where
  "deq a b = (\<not> is_nan a \<and> \<not> is_nan b \<and> ord_key a = ord_key b)"

definition make_double :: "bool \<Rightarrow> nat \<Rightarrow> double" where
  "make_double neg m = of_nat ((if neg then 2 ^ 63 else 0) + m)"

text \<open>The NaN an invalid operation returns. Its sign and payload differ between
  processors; the program never looks at them.\<close>

definition quiet_nan :: double where
  "quiet_nan = make_double False (inf_bits + 2 ^ 51)"

definition infinity :: "bool \<Rightarrow> double" where
  "infinity neg = make_double neg inf_bits"

definition zero :: "bool \<Rightarrow> double" where
  "zero neg = make_double neg 0"

fun bit_length :: "nat \<Rightarrow> nat" where
  "bit_length n = (if n = 0 then 0 else Suc (bit_length (n div 2)))"

declare bit_length.simps [simp del]

text \<open>
  \<open>round_to_double neg q sticky e0\<close> is the double nearest to \<open>\<plusminus> (q + \<delta>) * 2 ^ e0\<close>, where
  \<open>0 < q\<close>, \<open>0 \<le> \<delta> < 1\<close> and \<open>sticky\<close> says that \<open>\<delta> \<noteq> 0\<close>: the significand keeps 53 bits
  (fewer below the smallest normal number, exponent \<open>-1074\<close>), a tie goes to the even
  significand, and a result beyond the largest finite double is an infinity. Adding the
  significand to the exponent field carries a significand of \<open>2 ^ 53\<close> into the exponent.
\<close>

definition round_to_double :: "bool \<Rightarrow> nat \<Rightarrow> bool \<Rightarrow> int \<Rightarrow> double" where
  "round_to_double neg q sticky e0 =
     (let e1 = max (e0 + int (bit_length q) - 53) (- 1074);
          m = (if e1 \<le> e0 then q * 2 ^ nat (e0 - e1)
               else let sh = nat (e1 - e0);
                        m0 = q div 2 ^ sh;
                        r = q mod 2 ^ sh;
                        half = 2 ^ (sh - 1);
                        up = (half < r \<or> (r = half \<and> (sticky \<or> m0 mod 2 = 1)))
                    in if up then m0 + 1 else m0);
          bits = nat (e1 + 1074) * 2 ^ 52 + m
      in if inf_bits \<le> bits then infinity neg else make_double neg bits)"

text \<open>A finite double is \<open>\<plusminus> m * 2 ^ e\<close> for \<open>(m, e) = decode d\<close>.\<close>

definition decode :: "double \<Rightarrow> nat \<times> int" where
  "decode d =
     (let ex = magnitude d div 2 ^ 52; fr = magnitude d mod 2 ^ 52
      in if ex = 0 then (fr, - 1074) else (fr + 2 ^ 52, int ex - 1075))"

text \<open>The C++ operator \<^verbatim>\<open>/\<close> on doubles. The quotient of two finite non-zero values is
  taken with 108 extra bits, so that at least 56 bits are there to round.\<close>

definition ddiv :: "double \<Rightarrow> double \<Rightarrow> double" where
  "ddiv a b =
     (let neg = (sign_bit a \<noteq> sign_bit b)
      in if is_nan a \<or> is_nan b then quiet_nan
         else if is_inf a then (if is_inf b then quiet_nan else infinity neg)
         else if is_inf b then zero neg
         else if is_zero b then (if is_zero a then quiet_nan else infinity neg)
         else if is_zero a then zero neg
         else (case decode a of (ma, ea) \<Rightarrow> case decode b of (mb, eb) \<Rightarrow>
                 let n = ma * 2 ^ 108
                 in round_to_double neg (n div mb) (n mod mb \<noteq> 0) (ea - eb - 108)))"

text \<open>The conversion of an integer to double (the literals \<^verbatim>\<open>0\<close>, \<^verbatim>\<open>1\<close>, \<^verbatim>\<open>5\<close>, \<^verbatim>\<open>100L\<close> ... of
  the source), and of an \<^verbatim>\<open>unsigned short\<close>, which is promoted to \<^verbatim>\<open>int\<close> first.\<close>

definition double_of_int :: "int \<Rightarrow> double" where
  "double_of_int i =
     (if i = 0 then zero False else round_to_double (i < 0) (nat \<bar>i\<bar>) False 0)"

definition double_of_ushort :: "16 word \<Rightarrow> double" where
  "double_of_ushort w = double_of_int (uint w)"

subsection \<open>Events, the mock bus and the controller\<close>

datatype SpeedUpdate = SpeedUpdate (velocity_mps: double)

datatype CarDetected = CarDetected (distance_m: double) (velocity_mps: double)

datatype SpeedLimitDetected = SpeedLimitDetected (speed_mps: "16 word")

datatype BrakeCommand = BrakeCommand (time_to_collision_s: double)

text \<open>\<^verbatim>\<open>MockServiceBus\<close>: the last command and the count of the commands published. The
  three callback slots hold the lambdas of the one \<^verbatim>\<open>AutoBrake\<close> built on the bus; they are
  the functions \<open>speed_update_callback\<close>, \<open>car_detected_callback\<close> and
  \<open>speed_limit_callback\<close> below.\<close>

record MockServiceBus =
  last_command :: BrakeCommand
  commands_published :: int

definition MockServiceBus_init :: MockServiceBus where
  "MockServiceBus_init =
     \<lparr>last_command = BrakeCommand (zero False), commands_published = 0\<rparr>"

definition publish :: "BrakeCommand \<Rightarrow> MockServiceBus \<Rightarrow> MockServiceBus" where
  "publish cmd bus =
     bus\<lparr>commands_published := commands_published bus + 1, last_command := cmd\<rparr>"

record AutoBrake =
  collision_threshold_s :: double
  speed_mps :: double
  last_known_speed_limit :: "16 word"

text \<open>The member initialisers of the constructor (lines 110 to 113).\<close>

definition AutoBrake_init :: AutoBrake where
  "AutoBrake_init =
     \<lparr>collision_threshold_s = double_of_int 5,
      speed_mps = zero False,
      last_known_speed_limit = 39\<rparr>"

text \<open>The three lambdas (lines 114 to 141). Each returns the controller after the call and
  the commands it passed to \<^verbatim>\<open>bus.publish\<close>, in order. None of them throws.\<close>

definition on_speed_update :: "SpeedUpdate \<Rightarrow> AutoBrake \<Rightarrow> AutoBrake \<times> BrakeCommand list" where
  "on_speed_update update ab =
     (if dgt (SpeedUpdate.velocity_mps update) (double_of_ushort (last_known_speed_limit ab))
      then (let time_to_collision_s = double_of_int 0
            in (ab, [BrakeCommand time_to_collision_s]))
      else (ab\<lparr>speed_mps := SpeedUpdate.velocity_mps update\<rparr>, []))"

definition on_car_detected :: "CarDetected \<Rightarrow> AutoBrake \<Rightarrow> AutoBrake \<times> BrakeCommand list" where
  "on_car_detected cd ab =
     (let relative_velocity_mps = AutoBrake.speed_mps ab;
          time_to_collision_s = ddiv (distance_m cd) relative_velocity_mps
      in if dgt time_to_collision_s (double_of_int 0) \<and>
            dle time_to_collision_s (collision_threshold_s ab)
         then (ab, [BrakeCommand time_to_collision_s])
         else (ab, []))"

definition on_speed_limit :: "SpeedLimitDetected \<Rightarrow> AutoBrake \<Rightarrow> AutoBrake \<times> BrakeCommand list" where
  "on_speed_limit limit ab =
     (let ab1 = ab\<lparr>last_known_speed_limit := SpeedLimitDetected.speed_mps limit\<rparr>
      in if dgt (AutoBrake.speed_mps ab1) (double_of_ushort (last_known_speed_limit ab1))
         then (let time_to_collision_s = double_of_int 0
               in (ab1, [BrakeCommand time_to_collision_s]))
         else (ab1, []))"

datatype error = out_of_range string

definition set_collision_threshold_s :: "double \<Rightarrow> AutoBrake \<Rightarrow> error + AutoBrake" where
  "set_collision_threshold_s x ab =
     (if dlt x (double_of_int 1) then Inl (out_of_range ''Collision less than 1.'')
      else Inr (ab\<lparr>collision_threshold_s := x\<rparr>))"

subsection \<open>The test fixture\<close>

text \<open>A test owns a bus and a controller built on it. Calling a callback slot of the bus
  runs the lambda on the controller and \<open>publish\<close> on the bus for each command.\<close>

type_synonym fixture = "AutoBrake \<times> MockServiceBus"

definition fixture_init :: fixture where
  "fixture_init = (AutoBrake_init, MockServiceBus_init)"

definition deliver :: "(AutoBrake \<Rightarrow> AutoBrake \<times> BrakeCommand list) \<Rightarrow> fixture \<Rightarrow> fixture" where
  "deliver handler fx =
     (case handler (fst fx) of (ab, cmds) \<Rightarrow> (ab, fold publish cmds (snd fx)))"

definition speed_update_callback :: "SpeedUpdate \<Rightarrow> fixture \<Rightarrow> fixture" where
  "speed_update_callback update = deliver (on_speed_update update)"

definition car_detected_callback :: "CarDetected \<Rightarrow> fixture \<Rightarrow> fixture" where
  "car_detected_callback cd = deliver (on_car_detected cd)"

definition speed_limit_callback :: "SpeedLimitDetected \<Rightarrow> fixture \<Rightarrow> fixture" where
  "speed_limit_callback limit = deliver (on_speed_limit limit)"

text \<open>The statements a test body is made of, and their execution in order; an exception
  ends the test.\<close>

datatype test_call =
    Set_threshold double
  | Speed_update SpeedUpdate
  | Car_detected CarDetected
  | Speed_limit SpeedLimitDetected

fun exec_call :: "test_call \<Rightarrow> fixture \<Rightarrow> error + fixture" where
  "exec_call (Set_threshold x) fx =
     (case set_collision_threshold_s x (fst fx) of
        Inl e \<Rightarrow> Inl e
      | Inr ab \<Rightarrow> Inr (ab, snd fx))"
| "exec_call (Speed_update u) fx = Inr (speed_update_callback u fx)"
| "exec_call (Car_detected cd) fx = Inr (car_detected_callback cd fx)"
| "exec_call (Speed_limit l) fx = Inr (speed_limit_callback l fx)"

fun run_calls :: "test_call list \<Rightarrow> fixture \<Rightarrow> error + fixture" where
  "run_calls [] fx = Inr fx"
| "run_calls (c # cs) fx =
     (case exec_call c fx of Inl e \<Rightarrow> Inl e | Inr fx1 \<Rightarrow> run_calls cs fx1)"

subsection \<open>Reachable controller states\<close>

text \<open>The states a controller can be in: as constructed, after a call of one of its three
  lambdas, and after a call of \<^verbatim>\<open>set_collision_threshold_s\<close> that returned.\<close>

inductive reachable :: "AutoBrake \<Rightarrow> bool" where
  constructed: "reachable AutoBrake_init"
| speed_update: "reachable ab \<Longrightarrow> reachable (fst (on_speed_update u ab))"
| car_detected: "reachable ab \<Longrightarrow> reachable (fst (on_car_detected cd ab))"
| speed_limit: "reachable ab \<Longrightarrow> reachable (fst (on_speed_limit l ab))"
| set_threshold:
    "reachable ab \<Longrightarrow> set_collision_threshold_s x ab = Inr ab1 \<Longrightarrow> reachable ab1"

subsection \<open>Evaluating the model\<close>

lemma bit_length_0: "bit_length 0 = 0"
  by (simp add: bit_length.simps)

lemma bit_length_1: "bit_length (Suc 0) = Suc 0"
  by (simp add: bit_length.simps)

lemma bit_length_numeral: "bit_length (numeral k) = Suc (bit_length (numeral k div 2))"
  by (subst bit_length.simps) simp

lemmas double_of_int_eval =
  double_of_int_def round_to_double_def Let_def inf_bits_def infinity_def make_double_def
  zero_def bit_length_0 bit_length_1 bit_length_numeral

lemmas compare_eval =
  dlt_def dle_def dgt_def dge_def deq_def is_nan_def is_inf_def is_zero_def ord_key_def
  sign_bit_def magnitude_def inf_bits_def

text \<open>The bit patterns of the literals of the tests.\<close>

lemma double_0: "double_of_int 0 = 0"
  by (simp add: double_of_int_eval)

lemma double_1: "double_of_int 1 = 0x3FF0000000000000"
  by (simp add: double_of_int_eval)

lemma double_2: "double_of_int 2 = 0x4000000000000000"
  by (simp add: double_of_int_eval)

lemma double_5: "double_of_int 5 = 0x4014000000000000"
  by (simp add: double_of_int_eval)

lemma double_10: "double_of_int 10 = 0x4024000000000000"
  by (simp add: double_of_int_eval)

lemma double_25: "double_of_int 25 = 0x4039000000000000"
  by (simp add: double_of_int_eval)

lemma double_30: "double_of_int 30 = 0x403E000000000000"
  by (simp add: double_of_int_eval)

lemma double_35: "double_of_int 35 = 0x4041800000000000"
  by (simp add: double_of_int_eval)

lemma double_39: "double_of_int 39 = 0x4043800000000000"
  by (simp add: double_of_int_eval)

lemma double_40: "double_of_int 40 = 0x4044000000000000"
  by (simp add: double_of_int_eval)

lemma double_50: "double_of_int 50 = 0x4049000000000000"
  by (simp add: double_of_int_eval)

lemma double_100: "double_of_int 100 = 0x4059000000000000"
  by (simp add: double_of_int_eval)

lemma double_1000: "double_of_int 1000 = 0x408F400000000000"
  by (simp add: double_of_int_eval)

lemma zero_pos: "zero False = 0"
  by (simp add: zero_def make_double_def)

lemma infinity_pos: "infinity False = 0x7FF0000000000000"
  by (simp add: infinity_def make_double_def inf_bits_def)

lemma infinity_neg: "infinity True = 0xFFF0000000000000"
  by (simp add: infinity_def make_double_def inf_bits_def)

lemma quiet_nan_bits: "quiet_nan = 0x7FF8000000000000"
  by (simp add: quiet_nan_def make_double_def inf_bits_def)

lemmas literals =
  double_0 double_1 double_2 double_5 double_10 double_25 double_30 double_35 double_39
  double_40 double_50 double_100 double_1000 zero_pos infinity_pos infinity_neg
  quiet_nan_bits

lemma ushort_25: "double_of_ushort 25 = 0x4039000000000000"
  by (simp add: double_of_ushort_def double_25)

lemma ushort_35: "double_of_ushort 35 = 0x4041800000000000"
  by (simp add: double_of_ushort_def double_35)

lemma ushort_39: "double_of_ushort 39 = 0x4043800000000000"
  by (simp add: double_of_ushort_def double_39)

lemma ushort_100: "double_of_ushort 100 = 0x4059000000000000"
  by (simp add: double_of_ushort_def double_100)

lemmas ushorts = ushort_25 ushort_35 ushort_39 ushort_100

lemma decode_100: "decode 0x4059000000000000 = (0x19000000000000, - 46)"
  by (simp add: decode_def magnitude_def)

lemma decode_1000: "decode 0x408F400000000000 = (0x1F400000000000, - 43)"
  by (simp add: decode_def magnitude_def)

text \<open>\<open>100 / 100 = 1\<close>, \<open>1000 / 100 = 10\<close> and \<open>100 / 0 = 1000 / 0 = +\<infinity>\<close>.\<close>

lemma ddiv_100_100: "ddiv 0x4059000000000000 0x4059000000000000 = 0x3FF0000000000000"
  by (simp add: ddiv_def decode_100 is_nan_def is_inf_def is_zero_def magnitude_def
      sign_bit_def round_to_double_def Let_def inf_bits_def infinity_def make_double_def
      bit_length_0 bit_length_1 bit_length_numeral)

lemma ddiv_1000_100: "ddiv 0x408F400000000000 0x4059000000000000 = 0x4024000000000000"
  by (simp add: ddiv_def decode_100 decode_1000 is_nan_def is_inf_def is_zero_def
      magnitude_def sign_bit_def round_to_double_def Let_def inf_bits_def infinity_def
      make_double_def bit_length_0 bit_length_1 bit_length_numeral)

lemma ddiv_100_0: "ddiv 0x4059000000000000 0 = 0x7FF0000000000000"
  by (simp add: ddiv_def is_nan_def is_inf_def is_zero_def magnitude_def sign_bit_def
      Let_def inf_bits_def infinity_def make_double_def)

lemma ddiv_1000_0: "ddiv 0x408F400000000000 0 = 0x7FF0000000000000"
  by (simp add: ddiv_def is_nan_def is_inf_def is_zero_def magnitude_def sign_bit_def
      Let_def inf_bits_def infinity_def make_double_def)

lemmas quotients = ddiv_100_100 ddiv_1000_100 ddiv_100_0 ddiv_1000_0

text \<open>The rounding on quotients that are not representable, checked against the bit
  patterns an IEEE 754 processor returns: \<open>1 / 3\<close> (rounded down), \<open>2 / 3\<close> and \<open>1 / 10\<close>
  (rounded up), a tie between two subnormal numbers (to the even one), a quotient beyond
  the largest finite double, and a negative quotient.\<close>

lemmas ddiv_eval =
  ddiv_def decode_def is_nan_def is_inf_def is_zero_def magnitude_def sign_bit_def
  round_to_double_def Let_def inf_bits_def infinity_def make_double_def zero_def
  bit_length_0 bit_length_1 bit_length_numeral

lemma ddiv_1_3: "ddiv 0x3FF0000000000000 0x4008000000000000 = 0x3FD5555555555555"
  by (simp add: ddiv_eval)

lemma ddiv_2_3: "ddiv 0x4000000000000000 0x4008000000000000 = 0x3FE5555555555555"
  by (simp add: ddiv_eval)

lemma ddiv_1_10: "ddiv 0x3FF0000000000000 0x4024000000000000 = 0x3FB999999999999A"
  by (simp add: ddiv_eval)

lemma ddiv_subnormal_tie: "ddiv 0x0000000000000003 0x4000000000000000 = 0x0000000000000002"
  by (simp add: ddiv_eval)

lemma ddiv_overflow: "ddiv 0x7FEFFFFFFFFFFFFF 0x3FE0000000000000 = 0x7FF0000000000000"
  by (simp add: ddiv_eval)

lemma ddiv_negative: "ddiv 0xC059000000000000 0x4059000000000000 = 0xBFF0000000000000"
  by (simp add: ddiv_eval)

lemmas handler_defs =
  on_speed_update_def on_car_detected_def on_speed_limit_def set_collision_threshold_s_def

lemmas fixture_defs =
  fixture_init_def AutoBrake_init_def MockServiceBus_init_def deliver_def
  speed_update_callback_def car_detected_callback_def speed_limit_callback_def publish_def

subsection \<open>Facts about the comparisons and the division\<close>

lemma dle_not_dgt: "dle a b \<Longrightarrow> \<not> dgt a b"
  by (simp add: dle_def dgt_def dlt_def)

lemma dgt_not_dle: "dgt a b \<Longrightarrow> \<not> dle a b"
  by (simp add: dle_def dgt_def dlt_def)

lemma not_nan_total: "\<not> is_nan a \<Longrightarrow> \<not> is_nan b \<Longrightarrow> dlt a b \<or> dge a b"
  by (auto simp: dlt_def dge_def dle_def)

lemma is_zero_not_special: "is_zero b \<Longrightarrow> \<not> is_nan b \<and> \<not> is_inf b"
  by (simp add: is_zero_def is_nan_def is_inf_def inf_bits_def)

lemma ddiv_zero_divisor:
  "is_zero b \<Longrightarrow> ddiv a b = quiet_nan \<or> ddiv a b = infinity (sign_bit a \<noteq> sign_bit b)"
  using is_zero_not_special [of b] by (simp add: ddiv_def Let_def)

lemma is_nan_quiet_nan: "is_nan quiet_nan"
  by (simp add: quiet_nan_bits is_nan_def magnitude_def inf_bits_def)

lemma is_inf_infinity: "is_inf (infinity neg)"
  by (cases neg) (simp_all add: infinity_pos infinity_neg is_inf_def magnitude_def inf_bits_def)

lemma not_dgt_nan: "\<not> dgt quiet_nan x"
  by (simp add: dgt_def dlt_def is_nan_quiet_nan)

lemma not_dgt_neg_infinity_0: "\<not> dgt (infinity True) (double_of_int 0)"
  by (simp add: literals compare_eval)

lemma dle_infinity_pos: assumes "dle (infinity False) t" shows "t = infinity False"
proof -
  have k: "ord_key (infinity False) = int inf_bits"
    by (simp add: infinity_pos ord_key_def sign_bit_def magnitude_def inf_bits_def)
  from assms have nn: "\<not> is_nan t" and le: "int inf_bits \<le> ord_key t"
    by (simp_all add: dle_def k)
  have pos: "\<not> sign_bit t"
  proof
    assume "sign_bit t"
    then have "ord_key t \<le> 0" by (simp add: ord_key_def)
    with le show False by (simp add: inf_bits_def)
  qed
  then have m: "magnitude t = unat t" by (simp add: sign_bit_def magnitude_def)
  from pos le have "inf_bits \<le> magnitude t" by (simp add: ord_key_def)
  with nn have "magnitude t = inf_bits" by (simp add: is_nan_def)
  with m have "unat t = inf_bits" by simp
  then have "of_nat (unat t) = (of_nat inf_bits :: double)" by simp
  then have "t = of_nat inf_bits" by simp
  then show ?thesis by (simp add: infinity_def make_double_def)
qed

subsection \<open>The threshold setter and the states it leads to\<close>

lemma set_threshold_rejects:
  "dlt x (double_of_int 1) \<Longrightarrow>
     set_collision_threshold_s x ab = Inl (out_of_range ''Collision less than 1.'')"
  by (simp add: set_collision_threshold_s_def)

lemma set_threshold_accepts:
  "dge x (double_of_int 1) \<Longrightarrow>
     set_collision_threshold_s x ab = Inr (ab\<lparr>collision_threshold_s := x\<rparr>)"
  using dle_not_dgt [of "double_of_int 1" x]
  by (simp add: set_collision_threshold_s_def dge_def dgt_def)

lemma threshold_never_below_one:
  "reachable ab \<Longrightarrow> \<not> dlt (collision_threshold_s ab) (double_of_int 1)"
proof (induction rule: reachable.induct)
  case constructed
  show ?case by (simp add: AutoBrake_init_def literals compare_eval)
next
  case (speed_update ab u)
  then show ?case by (simp add: on_speed_update_def Let_def)
next
  case (car_detected ab cd)
  then show ?case by (simp add: on_car_detected_def Let_def)
next
  case (speed_limit ab l)
  then show ?case by (simp add: on_speed_limit_def Let_def)
next
  case (set_threshold ab x ab1)
  then show ?case by (auto simp: set_collision_threshold_s_def split: if_splits)
qed

lemma threshold_at_least_one_or_nan:
  "reachable ab \<Longrightarrow>
     dge (collision_threshold_s ab) (double_of_int 1) \<or> is_nan (collision_threshold_s ab)"
  using threshold_never_below_one [of ab]
    not_nan_total [of "collision_threshold_s ab" "double_of_int 1"]
  by (auto simp: literals compare_eval)

lemma fst_on_speed_limit:
  "fst (on_speed_limit l ab) = ab\<lparr>last_known_speed_limit := SpeedLimitDetected.speed_mps l\<rparr>"
  by (simp add: on_speed_limit_def Let_def)

lemma dgt_40_35: "dgt (double_of_int 40) (double_of_ushort 35)"
  by (simp add: literals ushorts compare_eval)

lemma dgt_30_25: "dgt (double_of_int 30) (double_of_ushort 25)"
  by (simp add: literals ushorts compare_eval)

lemma published_within_threshold:
  assumes r: "reachable ab" and n: "\<not> is_nan (collision_threshold_s ab)"
    and c: "BrakeCommand t \<in> set (snd (on_speed_update u ab)) \<union>
              set (snd (on_car_detected cd ab)) \<union> set (snd (on_speed_limit l ab))"
  shows "dle (double_of_int 0) t \<and> dle t (collision_threshold_s ab)"
proof -
  from threshold_at_least_one_or_nan [OF r] n
  have one: "dge (collision_threshold_s ab) (double_of_int 1)" by simp
  then have zero_ok: "dle (double_of_int 0) (double_of_int 0) \<and>
      dle (double_of_int 0) (collision_threshold_s ab)"
    by (simp add: literals compare_eval)
  from c consider (su) "BrakeCommand t \<in> set (snd (on_speed_update u ab))"
    | (cd) "BrakeCommand t \<in> set (snd (on_car_detected cd ab))"
    | (sl) "BrakeCommand t \<in> set (snd (on_speed_limit l ab))" by blast
  then show ?thesis
  proof cases
    case su
    then have "t = double_of_int 0"
      by (simp add: on_speed_update_def Let_def split: if_splits)
    with zero_ok show ?thesis by simp
  next
    case cd
    then have "dgt t (double_of_int 0) \<and> dle t (collision_threshold_s ab)"
      by (simp add: on_car_detected_def Let_def split: if_splits)
    then show ?thesis by (simp add: dgt_def dlt_def dle_def)
  next
    case sl
    then have "t = double_of_int 0"
      by (simp add: on_speed_limit_def Let_def split: if_splits)
    with zero_ok show ?thesis by simp
  qed
qed

section \<open>The claims\<close>

subsection \<open>Scenarios B and C\<close>

text \<open>
  On a fresh controller the known speed limit is 39, so \<^verbatim>\<open>SpeedUpdate{100}\<close> is an overspeed
  reading: the lambda publishes \<^verbatim>\<open>BrakeCommand{0}\<close> and does not store the speed. The
  \<^verbatim>\<open>CarDetected\<close> that follows divides by the speed 0, gets \<open>+\<infinity>\<close> and publishes nothing.
  Scenario B as stated therefore ends with one command, whose time to collision is 0 and
  not 1.
\<close>

theorem scenario_B_fresh_counterexample:
  "run_calls
     [Set_threshold (double_of_int 10),
      Speed_update (SpeedUpdate (double_of_int 100)),
      Car_detected (CarDetected (double_of_int 100) (double_of_int 0))] fixture_init =
   Inr (AutoBrake_init\<lparr>collision_threshold_s := double_of_int 10\<rparr>,
        \<lparr>last_command = BrakeCommand (double_of_int 0), commands_published = 1\<rparr>)
   \<and> \<not> deq (time_to_collision_s (last_command
          \<lparr>last_command = BrakeCommand (double_of_int 0), commands_published = 1\<rparr>))
        (double_of_int 1)"
  by (simp add: fixture_defs handler_defs literals ushorts quotients compare_eval Let_def)

text \<open>
  Claim C1, amended. With \<^verbatim>\<open>SpeedLimitDetected{100}\<close> delivered first, as the Catch2 section
  "alerts when collision is imminent" of the source does, the calls
  \<^verbatim>\<open>set_collision_threshold_s(10)\<close>, \<^verbatim>\<open>SpeedUpdate{100}\<close>, \<^verbatim>\<open>CarDetected{100, 0}\<close> end with
  exactly one command published, and its time to collision is \<open>100 / 100 = 1\<close>. Without
  it the same calls end with exactly one command published, the overspeed command of
  \<^verbatim>\<open>SpeedUpdate{100}\<close> with time to collision 0, and the speed still 0.
\<close>

theorem scenario_B_amended:
  "run_calls
     [Speed_limit (SpeedLimitDetected 100),
      Set_threshold (double_of_int 10),
      Speed_update (SpeedUpdate (double_of_int 100)),
      Car_detected (CarDetected (double_of_int 100) (double_of_int 0))] fixture_init =
   Inr (\<lparr>collision_threshold_s = double_of_int 10, speed_mps = double_of_int 100,
         last_known_speed_limit = 100\<rparr>,
        \<lparr>last_command = BrakeCommand (double_of_int 1), commands_published = 1\<rparr>)
   \<and> run_calls
     [Set_threshold (double_of_int 10),
      Speed_update (SpeedUpdate (double_of_int 100)),
      Car_detected (CarDetected (double_of_int 100) (double_of_int 0))] fixture_init =
   Inr (\<lparr>collision_threshold_s = double_of_int 10, speed_mps = double_of_int 0,
         last_known_speed_limit = 39\<rparr>,
        \<lparr>last_command = BrakeCommand (double_of_int 0), commands_published = 1\<rparr>)"
  by (simp add: fixture_defs handler_defs literals ushorts quotients compare_eval Let_def)

text \<open>
  Scenario C as stated ends with one command published, not zero: again the overspeed
  command of \<^verbatim>\<open>SpeedUpdate{100}\<close> against the limit 39.
\<close>

theorem scenario_C_fresh_counterexample:
  "run_calls
     [Set_threshold (double_of_int 2),
      Speed_update (SpeedUpdate (double_of_int 100)),
      Car_detected (CarDetected (double_of_int 1000) (double_of_int 50))] fixture_init =
   Inr (AutoBrake_init\<lparr>collision_threshold_s := double_of_int 2\<rparr>,
        \<lparr>last_command = BrakeCommand (double_of_int 0), commands_published = 1\<rparr>)
   \<and> commands_published
        \<lparr>last_command = BrakeCommand (double_of_int 0), commands_published = 1\<rparr> \<noteq> 0"
  by (simp add: fixture_defs handler_defs literals ushorts quotients compare_eval Let_def)

text \<open>
  Claim C2, amended. With \<^verbatim>\<open>SpeedLimitDetected{100}\<close> delivered first, as the Catch2 section
  "doesn't alerts when collision isn't imminent" does, the calls
  \<^verbatim>\<open>set_collision_threshold_s(2)\<close>, \<^verbatim>\<open>SpeedUpdate{100}\<close>, \<^verbatim>\<open>CarDetected{1000, 50}\<close> publish no
  command: the bus is as it was built, the quotient is \<open>1000 / 100 = 10\<close> and 10 is not at
  most 2. Without it the same calls end with exactly one command published, the overspeed
  command of \<^verbatim>\<open>SpeedUpdate{100}\<close>.
\<close>

theorem scenario_C_amended:
  "run_calls
     [Speed_limit (SpeedLimitDetected 100),
      Set_threshold (double_of_int 2),
      Speed_update (SpeedUpdate (double_of_int 100)),
      Car_detected (CarDetected (double_of_int 1000) (double_of_int 50))] fixture_init =
   Inr (\<lparr>collision_threshold_s = double_of_int 2, speed_mps = double_of_int 100,
         last_known_speed_limit = 100\<rparr>,
        MockServiceBus_init)
   \<and> commands_published MockServiceBus_init = 0
   \<and> ddiv (double_of_int 1000) (double_of_int 100) = double_of_int 10
   \<and> \<not> dle (double_of_int 10) (double_of_int 2)
   \<and> run_calls
     [Set_threshold (double_of_int 2),
      Speed_update (SpeedUpdate (double_of_int 100)),
      Car_detected (CarDetected (double_of_int 1000) (double_of_int 50))] fixture_init =
   Inr (\<lparr>collision_threshold_s = double_of_int 2, speed_mps = double_of_int 0,
         last_known_speed_limit = 39\<rparr>,
        \<lparr>last_command = BrakeCommand (double_of_int 0), commands_published = 1\<rparr>)"
  by (simp add: fixture_defs handler_defs literals ushorts quotients compare_eval Let_def)

subsection \<open>The threshold invariant\<close>

text \<open>
  Claim C3, at the input where the code leaves it. The guard of the setter is
  \<^verbatim>\<open>x < 1\<close>, which is false for a NaN: \<^verbatim>\<open>set_collision_threshold_s(NaN)\<close> on a fresh
  controller returns normally and stores the NaN, and the threshold of the state reached
  is not \<open>\<ge> 1\<close>. (What holds in every reachable state is \<open>threshold_never_below_one\<close>;
  the two halves of the claim about the setter are \<open>set_threshold_rejects\<close> and
  \<open>set_threshold_accepts\<close>.)
\<close>

theorem set_collision_threshold_s_accepts_nan:
  "set_collision_threshold_s quiet_nan AutoBrake_init =
     Inr (AutoBrake_init\<lparr>collision_threshold_s := quiet_nan\<rparr>)
   \<and> reachable (AutoBrake_init\<lparr>collision_threshold_s := quiet_nan\<rparr>)
   \<and> \<not> dge (collision_threshold_s (AutoBrake_init\<lparr>collision_threshold_s := quiet_nan\<rparr>))
          (double_of_int 1)"
proof -
  have s: "set_collision_threshold_s quiet_nan AutoBrake_init =
      Inr (AutoBrake_init\<lparr>collision_threshold_s := quiet_nan\<rparr>)"
    by (simp add: set_collision_threshold_s_def literals compare_eval)
  have r: "reachable (AutoBrake_init\<lparr>collision_threshold_s := quiet_nan\<rparr>)"
    by (rule reachable.set_threshold [OF reachable.constructed s])
  have n: "\<not> dge (collision_threshold_s (AutoBrake_init\<lparr>collision_threshold_s := quiet_nan\<rparr>))
      (double_of_int 1)"
    by (simp add: literals compare_eval)
  from s r n show ?thesis by blast
qed

subsection \<open>The three handlers\<close>

text \<open>
  Claim C4. For every controller state and every \<^verbatim>\<open>SpeedUpdate\<close> with velocity \<open>v\<close>: if
  \<open>v\<close> is greater than the known speed limit, the handler publishes exactly one command,
  with time to collision 0, and leaves the controller as it was; otherwise, in particular
  when \<open>v\<close> is at most the limit, it stores \<open>v\<close> as the speed and publishes nothing. On a
  fresh controller, \<^verbatim>\<open>SpeedLimitDetected{35}\<close> then \<^verbatim>\<open>SpeedUpdate{40}\<close> end with exactly one
  command published, with time to collision 0, and the speed still 0, which is not 40; and
  in every state reached by \<^verbatim>\<open>SpeedLimitDetected{35}\<close>, \<^verbatim>\<open>SpeedUpdate{40}\<close> publishes exactly
  that one command and changes nothing.
\<close>

theorem speed_update_policy:
  "(dgt v (double_of_ushort (last_known_speed_limit ab)) \<longrightarrow>
      on_speed_update (SpeedUpdate v) ab = (ab, [BrakeCommand (double_of_int 0)]))
   \<and> (\<not> dgt v (double_of_ushort (last_known_speed_limit ab)) \<longrightarrow>
      on_speed_update (SpeedUpdate v) ab = (ab\<lparr>speed_mps := v\<rparr>, []))
   \<and> (dle v (double_of_ushort (last_known_speed_limit ab)) \<longrightarrow>
      on_speed_update (SpeedUpdate v) ab = (ab\<lparr>speed_mps := v\<rparr>, []))
   \<and> run_calls
        [Speed_limit (SpeedLimitDetected 35),
         Speed_update (SpeedUpdate (double_of_int 40))] fixture_init =
      Inr (\<lparr>collision_threshold_s = double_of_int 5, speed_mps = zero False,
            last_known_speed_limit = 35\<rparr>,
           \<lparr>last_command = BrakeCommand (double_of_int 0), commands_published = 1\<rparr>)
   \<and> \<not> deq (zero False) (double_of_int 40)
   \<and> on_speed_update (SpeedUpdate (double_of_int 40))
        (fst (on_speed_limit (SpeedLimitDetected 35) ab)) =
      (ab\<lparr>last_known_speed_limit := 35\<rparr>, [BrakeCommand (double_of_int 0)])"
proof (intro conjI impI)
  show "\<not> deq (zero False) (double_of_int 40)"
    by (simp add: literals compare_eval)
next
  show "on_speed_update (SpeedUpdate (double_of_int 40))
        (fst (on_speed_limit (SpeedLimitDetected 35) ab)) =
      (ab\<lparr>last_known_speed_limit := 35\<rparr>, [BrakeCommand (double_of_int 0)])"
    using dgt_40_35 by (simp add: fst_on_speed_limit on_speed_update_def)
next
  assume "dle v (double_of_ushort (last_known_speed_limit ab))"
  then show "on_speed_update (SpeedUpdate v) ab = (ab\<lparr>speed_mps := v\<rparr>, [])"
    using dle_not_dgt by (simp add: on_speed_update_def)
next
  show "run_calls
        [Speed_limit (SpeedLimitDetected 35),
         Speed_update (SpeedUpdate (double_of_int 40))] fixture_init =
      Inr (\<lparr>collision_threshold_s = double_of_int 5, speed_mps = zero False,
            last_known_speed_limit = 35\<rparr>,
           \<lparr>last_command = BrakeCommand (double_of_int 0), commands_published = 1\<rparr>)"
    by (simp add: fixture_defs handler_defs literals ushorts compare_eval Let_def)
qed (simp_all add: on_speed_update_def Let_def)

theorem speed_update_policy_witness:
  "dgt (double_of_int 40) (double_of_ushort (last_known_speed_limit (AutoBrake_init\<lparr>last_known_speed_limit := 35\<rparr>)))
   \<and> on_speed_update (SpeedUpdate (double_of_int 40)) (AutoBrake_init\<lparr>last_known_speed_limit := 35\<rparr>) =
       (AutoBrake_init\<lparr>last_known_speed_limit := 35\<rparr>, [BrakeCommand (double_of_int 0)])
   \<and> \<not> dgt (double_of_int 30) (double_of_ushort (last_known_speed_limit AutoBrake_init))
   \<and> dle (double_of_int 30) (double_of_ushort (last_known_speed_limit AutoBrake_init))
   \<and> on_speed_update (SpeedUpdate (double_of_int 30)) AutoBrake_init =
       (AutoBrake_init\<lparr>speed_mps := double_of_int 30\<rparr>, [])"
proof -
  have a: "dgt (double_of_int 40) (double_of_ushort (last_known_speed_limit (AutoBrake_init\<lparr>last_known_speed_limit := 35\<rparr>)))"
    by (simp add: literals ushorts compare_eval)
  have b: "dle (double_of_int 30) (double_of_ushort (last_known_speed_limit AutoBrake_init))"
    by (simp add: AutoBrake_init_def literals ushorts compare_eval)
  have c: "\<not> dgt (double_of_int 30) (double_of_ushort (last_known_speed_limit AutoBrake_init))"
    by (simp add: AutoBrake_init_def literals ushorts compare_eval)
  show ?thesis
    using a b c
      speed_update_policy [of "double_of_int 40" "AutoBrake_init\<lparr>last_known_speed_limit := 35\<rparr>"]
      speed_update_policy [of "double_of_int 30" AutoBrake_init]
    by blast
qed

text \<open>
  Claim C5. For every controller state whose speed is not zero and every \<^verbatim>\<open>CarDetected\<close>
  event, the handler leaves the controller as it was and publishes the one command
  carrying \<open>distance_m / speed_mps\<close> exactly when that quotient is greater than 0 and at
  most the threshold, and nothing otherwise; the velocity field of the event has no
  influence on the result.
\<close>

theorem car_detected_policy:
  assumes "\<not> is_zero (AutoBrake.speed_mps ab)"
  shows "fst (on_car_detected (CarDetected d w) ab) = ab
     \<and> snd (on_car_detected (CarDetected d w) ab) =
         (if dlt (double_of_int 0) (ddiv d (AutoBrake.speed_mps ab)) \<and>
             dle (ddiv d (AutoBrake.speed_mps ab)) (collision_threshold_s ab)
          then [BrakeCommand (ddiv d (AutoBrake.speed_mps ab))] else [])
     \<and> on_car_detected (CarDetected d w) ab = on_car_detected (CarDetected d w') ab"
  by (simp add: on_car_detected_def Let_def dgt_def)

theorem car_detected_policy_witness:
  "\<not> is_zero (AutoBrake.speed_mps (AutoBrake_init\<lparr>speed_mps := double_of_int 100\<rparr>))
   \<and> on_car_detected (CarDetected (double_of_int 100) (double_of_int 0))
        (AutoBrake_init\<lparr>speed_mps := double_of_int 100\<rparr>) =
      (AutoBrake_init\<lparr>speed_mps := double_of_int 100\<rparr>, [BrakeCommand (double_of_int 1)])
   \<and> on_car_detected (CarDetected (double_of_int 1000) (double_of_int 50))
        (AutoBrake_init\<lparr>speed_mps := double_of_int 100, collision_threshold_s := double_of_int 2\<rparr>) =
      (AutoBrake_init\<lparr>speed_mps := double_of_int 100, collision_threshold_s := double_of_int 2\<rparr>, [])"
proof -
  have nz: "\<not> is_zero (AutoBrake.speed_mps (AutoBrake_init\<lparr>speed_mps := double_of_int 100\<rparr>))"
    by (simp add: literals compare_eval)
  have nz2: "\<not> is_zero (AutoBrake.speed_mps
      (AutoBrake_init\<lparr>speed_mps := double_of_int 100, collision_threshold_s := double_of_int 2\<rparr>))"
    by (simp add: literals compare_eval)
  show ?thesis
    using nz
      car_detected_policy [OF nz, of "double_of_int 100" "double_of_int 0" "double_of_int 0"]
      car_detected_policy [OF nz2, of "double_of_int 1000" "double_of_int 50" "double_of_int 50"]
    by (simp add: AutoBrake_init_def literals quotients compare_eval prod_eq_iff)
qed

text \<open>
  With the threshold at \<open>+\<infinity>\<close>, which the setter accepts, a controller at speed 0 does
  publish on \<^verbatim>\<open>CarDetected{100, 0}\<close>: the quotient \<open>+\<infinity>\<close> is greater than 0 and at most the
  threshold, and \<^verbatim>\<open>BrakeCommand{+inf}\<close> goes out.
\<close>

theorem car_detected_zero_speed_counterexample:
  "set_collision_threshold_s (infinity False) AutoBrake_init =
     Inr (AutoBrake_init\<lparr>collision_threshold_s := infinity False\<rparr>)
   \<and> is_zero (AutoBrake.speed_mps (AutoBrake_init\<lparr>collision_threshold_s := infinity False\<rparr>))
   \<and> on_car_detected (CarDetected (double_of_int 100) (double_of_int 0))
        (AutoBrake_init\<lparr>collision_threshold_s := infinity False\<rparr>) =
      (AutoBrake_init\<lparr>collision_threshold_s := infinity False\<rparr>,
       [BrakeCommand (infinity False)])"
  by (simp add: handler_defs AutoBrake_init_def literals quotients compare_eval Let_def)

text \<open>
  Claim C6, amended. For every controller state whose speed is zero (\<open>+0\<close> or \<open>-0\<close>) and
  whose threshold is not \<open>+\<infinity>\<close>, and every \<^verbatim>\<open>CarDetected\<close> event, the handler returns
  without an error, leaves the controller as it was and publishes nothing; the quotient is
  an infinity or a NaN.
\<close>

theorem car_detected_zero_speed:
  assumes z: "is_zero (AutoBrake.speed_mps ab)"
    and t: "collision_threshold_s ab \<noteq> infinity False"
  shows "on_car_detected cd ab = (ab, [])
     \<and> (is_nan (ddiv (distance_m cd) (AutoBrake.speed_mps ab)) \<or>
        is_inf (ddiv (distance_m cd) (AutoBrake.speed_mps ab)))"
proof -
  let ?q = "ddiv (distance_m cd) (AutoBrake.speed_mps ab)"
  from ddiv_zero_divisor [OF z, of "distance_m cd"]
  consider (nan) "?q = quiet_nan" | (pinf) "?q = infinity False" | (ninf) "?q = infinity True"
    by (cases "sign_bit (distance_m cd) \<noteq> sign_bit (AutoBrake.speed_mps ab)") auto
  then show ?thesis
  proof cases
    case nan
    then show ?thesis
      using not_dgt_nan [of "double_of_int 0"] is_nan_quiet_nan
      by (simp add: on_car_detected_def Let_def)
  next
    case pinf
    have "\<not> dle (infinity False) (collision_threshold_s ab)"
      using dle_infinity_pos t by blast
    with pinf show ?thesis
      using is_inf_infinity [of False] by (simp add: on_car_detected_def Let_def)
  next
    case ninf
    then show ?thesis
      using not_dgt_neg_infinity_0 is_inf_infinity [of True]
      by (simp add: on_car_detected_def Let_def)
  qed
qed

theorem car_detected_zero_speed_witness:
  "is_zero (AutoBrake.speed_mps AutoBrake_init)
   \<and> collision_threshold_s AutoBrake_init \<noteq> infinity False
   \<and> on_car_detected (CarDetected (double_of_int 100) (double_of_int 0)) AutoBrake_init =
       (AutoBrake_init, [])
   \<and> is_inf (ddiv (double_of_int 100) (AutoBrake.speed_mps AutoBrake_init))"
proof -
  have z: "is_zero (AutoBrake.speed_mps AutoBrake_init)"
    by (simp add: AutoBrake_init_def literals compare_eval)
  have t: "collision_threshold_s AutoBrake_init \<noteq> infinity False"
    by (simp add: AutoBrake_init_def literals)
  have i: "is_inf (ddiv (double_of_int 100) (AutoBrake.speed_mps AutoBrake_init))"
    by (simp add: AutoBrake_init_def literals quotients compare_eval)
  show ?thesis
    using z t i
      car_detected_zero_speed [OF z t, of "CarDetected (double_of_int 100) (double_of_int 0)"]
    by simp
qed

text \<open>
  Claim C7. For every controller state and every \<^verbatim>\<open>SpeedLimitDetected\<close> with limit \<open>l\<close>, the
  handler stores \<open>l\<close> as the known limit; it publishes exactly one command, with time to
  collision 0, if the speed is greater than \<open>l\<close>, and nothing if the speed is at most \<open>l\<close>.
  On a fresh controller, \<^verbatim>\<open>SpeedUpdate{30}\<close> then \<^verbatim>\<open>SpeedLimitDetected{25}\<close> end with the
  speed 30 and exactly one command published, with time to collision 0; and from every
  state whose known limit is at least 30, \<^verbatim>\<open>SpeedUpdate{30}\<close> sets the speed to 30 and the
  \<^verbatim>\<open>SpeedLimitDetected{25}\<close> that follows publishes exactly that one command.
\<close>

theorem speed_limit_policy:
  "(dgt (AutoBrake.speed_mps ab) (double_of_ushort l) \<longrightarrow>
      on_speed_limit (SpeedLimitDetected l) ab =
        (ab\<lparr>last_known_speed_limit := l\<rparr>, [BrakeCommand (double_of_int 0)]))
   \<and> (dle (AutoBrake.speed_mps ab) (double_of_ushort l) \<longrightarrow>
      on_speed_limit (SpeedLimitDetected l) ab = (ab\<lparr>last_known_speed_limit := l\<rparr>, []))
   \<and> last_known_speed_limit (fst (on_speed_limit (SpeedLimitDetected l) ab)) = l
   \<and> run_calls
        [Speed_update (SpeedUpdate (double_of_int 30)),
         Speed_limit (SpeedLimitDetected 25)] fixture_init =
      Inr (\<lparr>collision_threshold_s = double_of_int 5, speed_mps = double_of_int 30,
            last_known_speed_limit = 25\<rparr>,
           \<lparr>last_command = BrakeCommand (double_of_int 0), commands_published = 1\<rparr>)
   \<and> (dle (double_of_int 30) (double_of_ushort (last_known_speed_limit ab)) \<longrightarrow>
      on_speed_limit (SpeedLimitDetected 25)
        (fst (on_speed_update (SpeedUpdate (double_of_int 30)) ab)) =
      (ab\<lparr>speed_mps := double_of_int 30, last_known_speed_limit := 25\<rparr>,
       [BrakeCommand (double_of_int 0)]))"
proof (intro conjI impI)
  assume "dle (double_of_int 30) (double_of_ushort (last_known_speed_limit ab))"
  then show "on_speed_limit (SpeedLimitDetected 25)
        (fst (on_speed_update (SpeedUpdate (double_of_int 30)) ab)) =
      (ab\<lparr>speed_mps := double_of_int 30, last_known_speed_limit := 25\<rparr>,
       [BrakeCommand (double_of_int 0)])"
    using dgt_30_25
      dle_not_dgt [of "double_of_int 30" "double_of_ushort (last_known_speed_limit ab)"]
    by (simp add: on_speed_update_def on_speed_limit_def Let_def)
next
  assume "dle (AutoBrake.speed_mps ab) (double_of_ushort l)"
  then show "on_speed_limit (SpeedLimitDetected l) ab = (ab\<lparr>last_known_speed_limit := l\<rparr>, [])"
    using dle_not_dgt by (simp add: on_speed_limit_def Let_def)
next
  show "run_calls
        [Speed_update (SpeedUpdate (double_of_int 30)),
         Speed_limit (SpeedLimitDetected 25)] fixture_init =
      Inr (\<lparr>collision_threshold_s = double_of_int 5, speed_mps = double_of_int 30,
            last_known_speed_limit = 25\<rparr>,
           \<lparr>last_command = BrakeCommand (double_of_int 0), commands_published = 1\<rparr>)"
    by (simp add: fixture_defs handler_defs literals ushorts compare_eval Let_def)
qed (simp_all add: on_speed_limit_def Let_def)

theorem speed_limit_policy_witness:
  "dgt (AutoBrake.speed_mps (AutoBrake_init\<lparr>speed_mps := double_of_int 30\<rparr>)) (double_of_ushort 25)
   \<and> on_speed_limit (SpeedLimitDetected 25) (AutoBrake_init\<lparr>speed_mps := double_of_int 30\<rparr>) =
       (AutoBrake_init\<lparr>speed_mps := double_of_int 30, last_known_speed_limit := 25\<rparr>,
        [BrakeCommand (double_of_int 0)])
   \<and> dle (AutoBrake.speed_mps (AutoBrake_init\<lparr>speed_mps := double_of_int 30\<rparr>)) (double_of_ushort 35)
   \<and> on_speed_limit (SpeedLimitDetected 35) (AutoBrake_init\<lparr>speed_mps := double_of_int 30\<rparr>) =
       (AutoBrake_init\<lparr>speed_mps := double_of_int 30, last_known_speed_limit := 35\<rparr>, [])
   \<and> dle (double_of_int 30) (double_of_ushort (last_known_speed_limit AutoBrake_init))
   \<and> on_speed_limit (SpeedLimitDetected 25)
        (fst (on_speed_update (SpeedUpdate (double_of_int 30)) AutoBrake_init)) =
       (AutoBrake_init\<lparr>speed_mps := double_of_int 30, last_known_speed_limit := 25\<rparr>,
        [BrakeCommand (double_of_int 0)])"
proof -
  have a: "dgt (AutoBrake.speed_mps (AutoBrake_init\<lparr>speed_mps := double_of_int 30\<rparr>)) (double_of_ushort 25)"
    by (simp add: literals ushorts compare_eval)
  have b: "dle (AutoBrake.speed_mps (AutoBrake_init\<lparr>speed_mps := double_of_int 30\<rparr>)) (double_of_ushort 35)"
    by (simp add: literals ushorts compare_eval)
  have c: "dle (double_of_int 30) (double_of_ushort (last_known_speed_limit AutoBrake_init))"
    by (simp add: AutoBrake_init_def literals ushorts compare_eval)
  show ?thesis
    using a b c
      speed_limit_policy [of "AutoBrake_init\<lparr>speed_mps := double_of_int 30\<rparr>" 25]
      speed_limit_policy [of "AutoBrake_init\<lparr>speed_mps := double_of_int 30\<rparr>" 35]
      speed_limit_policy [of AutoBrake_init 25]
    by simp
qed

text \<open>
  The handler keeps no record of a command it has published: at speed 30, a second
  \<^verbatim>\<open>SpeedLimitDetected{25}\<close> publishes again, and the bus has counted two commands.
\<close>

theorem repeated_speed_limit_counterexample:
  "dgt (AutoBrake.speed_mps (AutoBrake_init\<lparr>speed_mps := double_of_int 30\<rparr>)) (double_of_ushort 25)
   \<and> snd (on_speed_limit (SpeedLimitDetected 25)
        (fst (on_speed_limit (SpeedLimitDetected 25)
           (AutoBrake_init\<lparr>speed_mps := double_of_int 30\<rparr>)))) =
      [BrakeCommand (double_of_int 0)]
   \<and> run_calls
        [Speed_update (SpeedUpdate (double_of_int 30)),
         Speed_limit (SpeedLimitDetected 25),
         Speed_limit (SpeedLimitDetected 25)] fixture_init =
      Inr (\<lparr>collision_threshold_s = double_of_int 5, speed_mps = double_of_int 30,
            last_known_speed_limit = 25\<rparr>,
           \<lparr>last_command = BrakeCommand (double_of_int 0), commands_published = 2\<rparr>)"
  by (simp add: fixture_defs handler_defs literals ushorts compare_eval Let_def)

text \<open>
  Claim C8, amended. For every \<open>l\<close> and every controller state whose speed is greater than
  \<open>l\<close>, two \<^verbatim>\<open>SpeedLimitDetected{l}\<close> events in succession leave the known limit at \<open>l\<close>, and
  each of the two publishes exactly one command with time to collision 0.
\<close>

theorem repeated_speed_limit:
  assumes "dgt (AutoBrake.speed_mps ab) (double_of_ushort l)"
  shows "on_speed_limit (SpeedLimitDetected l) ab =
       (ab\<lparr>last_known_speed_limit := l\<rparr>, [BrakeCommand (double_of_int 0)])
     \<and> on_speed_limit (SpeedLimitDetected l) (ab\<lparr>last_known_speed_limit := l\<rparr>) =
       (ab\<lparr>last_known_speed_limit := l\<rparr>, [BrakeCommand (double_of_int 0)])"
  using assms by (simp add: on_speed_limit_def Let_def)

theorem repeated_speed_limit_witness:
  "dgt (AutoBrake.speed_mps (AutoBrake_init\<lparr>speed_mps := double_of_int 30\<rparr>)) (double_of_ushort 25)
   \<and> on_speed_limit (SpeedLimitDetected 25) (AutoBrake_init\<lparr>speed_mps := double_of_int 30\<rparr>) =
       (AutoBrake_init\<lparr>speed_mps := double_of_int 30, last_known_speed_limit := 25\<rparr>,
        [BrakeCommand (double_of_int 0)])
   \<and> on_speed_limit (SpeedLimitDetected 25)
        (AutoBrake_init\<lparr>speed_mps := double_of_int 30, last_known_speed_limit := 25\<rparr>) =
       (AutoBrake_init\<lparr>speed_mps := double_of_int 30, last_known_speed_limit := 25\<rparr>,
        [BrakeCommand (double_of_int 0)])"
proof -
  have a: "dgt (AutoBrake.speed_mps (AutoBrake_init\<lparr>speed_mps := double_of_int 30\<rparr>)) (double_of_ushort 25)"
    by (simp add: literals ushorts compare_eval)
  show ?thesis
    using a repeated_speed_limit [OF a] by simp
qed

subsection \<open>What the handlers publish and what they change\<close>

text \<open>
  Claim C9, at the input where the code leaves it. After \<^verbatim>\<open>set_collision_threshold_s(NaN)\<close>
  has gone through (see C3), \<^verbatim>\<open>SpeedUpdate{100}\<close> on the limit 39 publishes
  \<^verbatim>\<open>BrakeCommand{0}\<close> while the threshold is a NaN, and \<open>0 \<le> NaN\<close> is false. (For every
  reachable state whose threshold is not a NaN the bound holds:
  \<open>published_within_threshold\<close>.)
\<close>

theorem brake_command_above_nan_threshold:
  "run_calls
     [Set_threshold quiet_nan,
      Speed_update (SpeedUpdate (double_of_int 100))] fixture_init =
   Inr (AutoBrake_init\<lparr>collision_threshold_s := quiet_nan\<rparr>,
        \<lparr>last_command = BrakeCommand (double_of_int 0), commands_published = 1\<rparr>)
   \<and> \<not> dle (double_of_int 0)
          (collision_threshold_s (AutoBrake_init\<lparr>collision_threshold_s := quiet_nan\<rparr>))"
  by (simp add: fixture_defs handler_defs literals ushorts compare_eval Let_def)

text \<open>
  Claim C10. No handler changes the threshold: the \<^verbatim>\<open>SpeedUpdate\<close> handler leaves the
  threshold and the known limit as they were, the \<^verbatim>\<open>CarDetected\<close> handler the whole
  controller, the \<^verbatim>\<open>SpeedLimitDetected\<close> handler the threshold and the speed.
\<close>

theorem handlers_frame:
  "collision_threshold_s (fst (on_speed_update u ab)) = collision_threshold_s ab
   \<and> last_known_speed_limit (fst (on_speed_update u ab)) = last_known_speed_limit ab
   \<and> fst (on_car_detected cd ab) = ab
   \<and> collision_threshold_s (fst (on_speed_limit l ab)) = collision_threshold_s ab
   \<and> AutoBrake.speed_mps (fst (on_speed_limit l ab)) = AutoBrake.speed_mps ab"
  by (simp add: on_speed_update_def on_car_detected_def on_speed_limit_def Let_def)

end
